theory Spec2Isabelle
  imports Main "HOL-Library.Sublist"
begin

section \<open>Python values and the operations the program applies to them\<close>

text \<open>
  The value \<^verbatim>\<open>json.loads\<close> returns: \<^verbatim>\<open>None\<close>, a bool, an int, a float (kept as its
  source text, no arithmetic is ever done on it), a str, a list or a dict (its items
  in insertion order; the keys of a dict are distinct, and a list of items that repeats a
  key stands for the dict of the first item with each key).
\<close>

datatype json =
    JNull
  | JBool bool
  | JInt int
  | JFloat string
  | JStr string
  | JArr "json list"
  | JObj "(string \<times> json) list"

text \<open>The three ways a \<^verbatim>\<open>TypeError\<close> arises in the program.\<close>

datatype type_error =
    NotSubscriptable  \<comment> \<open>\<^verbatim>\<open>x[k]\<close> on None, a bool, an int or a float\<close>
  | BadIndex          \<comment> \<open>\<^verbatim>\<open>x["k"]\<close> on a list or a str: indices must be integers\<close>
  | NotIterable       \<comment> \<open>\<^verbatim>\<open>k in x\<close> or \<^verbatim>\<open>enumerate(x)\<close> on None, a bool, an int or a float\<close>

text \<open>
  The exceptions of the program. \<open>RequestException\<close> carries the text of the exception
  that \<^verbatim>\<open>requests\<close> raised, \<open>JSONDecodeError\<close> the text of the one \<^verbatim>\<open>json.loads\<close> raised,
  \<open>WriteError\<close> the text of the one \<^verbatim>\<open>DataFrame.to_excel\<close> raised.
\<close>

datatype error =
    KeyError string
  | TypeError type_error
  | RequestException string
  | JSONDecodeError string
  | WriteError string

text \<open>\<^verbatim>\<open>x[k]\<close> for a str key \<open>k\<close>.\<close>

fun subscript :: "json \<Rightarrow> string \<Rightarrow> error + json" where
  "subscript (JObj kvs) k = (case map_of kvs k of None \<Rightarrow> Inl (KeyError k) | Some v \<Rightarrow> Inr v)"
| "subscript (JArr xs) k = Inl (TypeError BadIndex)"
| "subscript (JStr s) k = Inl (TypeError BadIndex)"
| "subscript JNull k = Inl (TypeError NotSubscriptable)"
| "subscript (JBool b) k = Inl (TypeError NotSubscriptable)"
| "subscript (JInt n) k = Inl (TypeError NotSubscriptable)"
| "subscript (JFloat f) k = Inl (TypeError NotSubscriptable)"

text \<open>
  \<^verbatim>\<open>k in x\<close> for a str \<open>k\<close>: a key of a dict, an element of a list (only the str \<open>k\<close>
  itself equals \<open>k\<close>), a substring of a str.
\<close>

fun py_in :: "string \<Rightarrow> json \<Rightarrow> error + bool" where
  "py_in k (JObj kvs) = Inr (k \<in> set (map fst kvs))"
| "py_in k (JArr xs) = Inr (JStr k \<in> set xs)"
| "py_in k (JStr s) = Inr (sublist k s)"
| "py_in k JNull = Inl (TypeError NotIterable)"
| "py_in k (JBool b) = Inl (TypeError NotIterable)"
| "py_in k (JInt n) = Inl (TypeError NotIterable)"
| "py_in k (JFloat f) = Inl (TypeError NotIterable)"

text \<open>
  The items \<^verbatim>\<open>enumerate(x)\<close> walks through: the elements of a list, the keys of a dict,
  the characters of a str.
\<close>

fun py_iter :: "json \<Rightarrow> error + json list" where
  "py_iter (JArr xs) = Inr xs"
| "py_iter (JObj kvs) = Inr (map (\<lambda>kv. JStr (fst kv)) kvs)"
| "py_iter (JStr s) = Inr (map (\<lambda>c. JStr [c]) s)"
| "py_iter JNull = Inl (TypeError NotIterable)"
| "py_iter (JBool b) = Inl (TypeError NotIterable)"
| "py_iter (JInt n) = Inl (TypeError NotIterable)"
| "py_iter (JFloat f) = Inl (TypeError NotIterable)"

text \<open>\<^verbatim>\<open>s.replace(old, new)\<close> where \<open>old\<close> is a single character.\<close>

definition replace :: "char \<Rightarrow> string \<Rightarrow> string \<Rightarrow> string" where
  "replace old new s = concat (map (\<lambda>c. if c = old then new else [c]) s)"

text \<open>\<^verbatim>\<open>str(n)\<close> for an int: the decimal digits, after a minus sign when \<open>n < 0\<close>.\<close>

definition digit_char :: "nat \<Rightarrow> char" where
  "digit_char d = char_of (48 + d)"

fun digits :: "nat \<Rightarrow> string" where
  "digits n = (if n < 10 then [digit_char n] else digits (n div 10) @ [digit_char (n mod 10)])"

declare digits.simps [simp del]

definition str_int :: "int \<Rightarrow> string" where
  "str_int n = (if n < 0 then CHR ''-'' # digits (nat (- n)) else digits (nat n))"

text \<open>The number a string of decimal digits denotes (the inverse of \<open>digits\<close>).\<close>

definition decimal_value :: "string \<Rightarrow> nat" where
  "decimal_value s = foldl (\<lambda>a c. 10 * a + (of_char c - 48)) 0 s"

text \<open>
  A value of the command line: \<^verbatim>\<open>--size\<close> and \<^verbatim>\<open>--page\<close> have an int default and no
  \<^verbatim>\<open>type=\<close>, so the program holds the int default or the str the user typed.
\<close>

datatype arg = AInt int | AStr string

fun py_str :: "arg \<Rightarrow> string" where
  "py_str (AInt n) = str_int n"
| "py_str (AStr s) = s"

fun arg_json :: "arg \<Rightarrow> json" where
  "arg_json (AInt n) = JInt n"
| "arg_json (AStr s) = JStr s"

section \<open>The world the program acts on\<close>

text \<open>
  A table row and a spreadsheet row: index, host, ip, port. The header is the same four
  fixed column titles in the table and in the sheet, so a table and a sheet are their rows.
\<close>

type_synonym row = "nat \<times> json \<times> json \<times> json"

text \<open>
  What the program prints, one constructor for each \<^verbatim>\<open>print\<close> of the source, with the
  values it interpolates into its fixed text.
\<close>

datatype out =
    BlankLines                 \<comment> \<open>\<^verbatim>\<open>print("\n")\<close>\<close>
  | Summary json json json     \<comment> \<open>the pagination line: page index, page size, total\<close>
  | QueryLine string           \<comment> \<open>the line that repeats the query\<close>
  | Warning nat                \<comment> \<open>the warning that the item at this index has no http\<close>
  | Table "row list"           \<comment> \<open>\<^verbatim>\<open>print(table)\<close>\<close>
  | ApiError string            \<comment> \<open>the message before a \<^verbatim>\<open>RequestException\<close> is raised again\<close>
  | Exported string            \<comment> \<open>the message that the named file was written\<close>
  | Usage                      \<comment> \<open>the usage hint\<close>

record request =
  url :: string
  headers :: "(string \<times> string) list"
  json_body :: "(string \<times> json) list"

text \<open>
  The response object of \<^verbatim>\<open>requests\<close>: its \<^verbatim>\<open>status_code\<close>, \<^verbatim>\<open>reason\<close>, \<^verbatim>\<open>url\<close> and \<^verbatim>\<open>text\<close>.
\<close>

record response =
  status_code :: nat
  reason :: string
  resp_url :: string
  body_text :: string

text \<open>
  \<^verbatim>\<open>Response.raise_for_status()\<close> of \<^verbatim>\<open>requests\<close>: an \<^verbatim>\<open>HTTPError\<close> for a status from 400
  to 599, with the text given here, and nothing for any other status.
\<close>

definition raise_for_status :: "response \<Rightarrow> string option" where
  "raise_for_status r =
     (if 400 \<le> status_code r \<and> status_code r < 500 then
        Some (digits (status_code r) @ '' Client Error: '' @ reason r
              @ '' for url: '' @ resp_url r)
      else if 500 \<le> status_code r \<and> status_code r < 600 then
        Some (digits (status_code r) @ '' Server Error: '' @ reason r
              @ '' for url: '' @ resp_url r)
      else None)"

datatype post_outcome =
    PostRaises string       \<comment> \<open>\<^verbatim>\<open>requests.post\<close> raises a \<^verbatim>\<open>RequestException\<close>\<close>
  | PostReturns response

text \<open>
  The text of the \<^verbatim>\<open>RequestException\<close> that a call of \<^verbatim>\<open>requests.post\<close> followed by
  \<^verbatim>\<open>raise_for_status()\<close> ends with, \<open>None\<close> when neither raises.
\<close>

definition error_text :: "post_outcome \<Rightarrow> string option" where
  "error_text outcome =
     (case outcome of
        PostRaises msg \<Rightarrow> Some msg
      | PostReturns r \<Rightarrow> raise_for_status r)"

text \<open>
  The libraries and the operating system, as the program calls them: \<^verbatim>\<open>requests.post\<close>,
  \<^verbatim>\<open>json.loads\<close> (the text of its \<^verbatim>\<open>JSONDecodeError\<close>, or the value), \<^verbatim>\<open>os.getcwd\<close>, and
  \<^verbatim>\<open>DataFrame.to_excel\<close> (the text of the exception it raises for this path and these
  rows, \<open>None\<close> when it writes the file).
\<close>

record env =
  post :: "request \<Rightarrow> post_outcome"
  json_loads :: "string \<Rightarrow> string + json"
  getcwd :: string
  to_excel :: "string \<Rightarrow> row list \<Rightarrow> string option"

text \<open>
  What a run leaves behind: the lines printed, the spreadsheet files by path (a file that
  \<^verbatim>\<open>to_excel\<close> fails to write is left as it was), and the calls of \<^verbatim>\<open>requests.post\<close> made,
  each with the request it was given.
\<close>

record world =
  console :: "out list"
  files :: "string \<rightharpoonup> row list"
  posts :: "request list"

definition print :: "out \<Rightarrow> world \<Rightarrow> world" where
  "print x w = w\<lparr>console := console w @ [x]\<rparr>"

text \<open>\<^verbatim>\<open>os.path.join(a, b)\<close> on a POSIX system.\<close>

definition path_join :: "string \<Rightarrow> string \<Rightarrow> string" where
  "path_join a b =
     (if b \<noteq> [] \<and> hd b = CHR ''/'' then b
      else if a = [] \<or> last a = CHR ''/'' then a @ b
      else a @ ''/'' @ b)"

section \<open>The class QuakeQuery\<close>

record QuakeQuery =
  api_key :: string

subsection \<open>perform\_search (the same text in both files)\<close>

definition payload :: "string \<Rightarrow> arg \<Rightarrow> arg \<Rightarrow> (string \<times> json) list" where
  "payload query result_count start_page =
     [(''query'', JStr query),
      (''start'', arg_json start_page),
      (''size'', JStr (py_str result_count))]"

definition search_request :: "QuakeQuery \<Rightarrow> string \<Rightarrow> arg \<Rightarrow> arg \<Rightarrow> request" where
  "search_request self query result_count start_page =
     \<lparr>url = ''https://quake.360.cn/api/v3/search/quake_service'',
      headers = [(''X-QuakeToken'', api_key self)],
      json_body = payload query result_count start_page\<rparr>"

definition perform_search ::
  "QuakeQuery \<Rightarrow> env \<Rightarrow> string \<Rightarrow> arg \<Rightarrow> arg \<Rightarrow> world \<Rightarrow> (error + json) \<times> world" where
  "perform_search self e query result_count start_page w =
     (let req = search_request self query result_count start_page;
          w1 = w\<lparr>posts := posts w @ [req]\<rparr>
      in case post e req of
           PostRaises msg \<Rightarrow> (Inl (RequestException msg), print (ApiError msg) w1)
         | PostReturns r \<Rightarrow>
             (case raise_for_status r of
                Some msg \<Rightarrow> (Inl (RequestException msg), print (ApiError msg) w1)
              | None \<Rightarrow>
                  (case json_loads e (body_text r) of
                     Inl d \<Rightarrow> (Inl (JSONDecodeError d), w1)
                   | Inr v \<Rightarrow> (Inr v, w1))))"

subsection \<open>display\_results\<close>

text \<open>\<^verbatim>\<open>api_response['meta']['pagination'][k]\<close>\<close>

definition pagination :: "json \<Rightarrow> string \<Rightarrow> error + json" where
  "pagination api_response k =
     (case subscript api_response ''meta'' of
        Inl e \<Rightarrow> Inl e
      | Inr m \<Rightarrow>
          (case subscript m ''pagination'' of
             Inl e \<Rightarrow> Inl e
           | Inr p \<Rightarrow> subscript p k))"

text \<open>
  The three fields of the summary line, read in the order the f-string reads them; the
  line is printed only when all three are there.
\<close>

definition summary :: "json \<Rightarrow> error + out" where
  "summary api_response =
     (case pagination api_response ''page_index'' of
        Inl e \<Rightarrow> Inl e
      | Inr i \<Rightarrow>
          (case pagination api_response ''page_size'' of
             Inl e \<Rightarrow> Inl e
           | Inr s \<Rightarrow>
               (case pagination api_response ''total'' of
                  Inl e \<Rightarrow> Inl e
                | Inr t \<Rightarrow> Inr (Summary i s t))))"

text \<open>
  The row built from one item: \<^verbatim>\<open>item["service"]["http"]["host"]\<close>, \<^verbatim>\<open>item["ip"]\<close>,
  \<^verbatim>\<open>item["port"]\<close>, read in this order.
\<close>

definition row_of :: "nat \<Rightarrow> json \<Rightarrow> error + row" where
  "row_of index item =
     (case subscript item ''service'' of
        Inl e \<Rightarrow> Inl e
      | Inr s \<Rightarrow>
          (case subscript s ''http'' of
             Inl e \<Rightarrow> Inl e
           | Inr h \<Rightarrow>
               (case subscript h ''host'' of
                  Inl e \<Rightarrow> Inl e
                | Inr host \<Rightarrow>
                    (case subscript item ''ip'' of
                       Inl e \<Rightarrow> Inl e
                     | Inr ip \<Rightarrow>
                         (case subscript item ''port'' of
                            Inl e \<Rightarrow> Inl e
                          | Inr port \<Rightarrow> Inr (index, host, ip, port))))))"

text \<open>
  The loop of \<^verbatim>\<open>display_results\<close> in \<^verbatim>\<open>360QuakeForCMD.py\<close>: \<open>index\<close> is the index of the
  first remaining item, \<open>table\<close> the rows added so far.
\<close>

fun add_rows :: "nat \<Rightarrow> json list \<Rightarrow> row list \<Rightarrow> world \<Rightarrow> (error + row list) \<times> world" where
  "add_rows index [] table w = (Inr table, w)"
| "add_rows index (item # items) table w =
     (case subscript item ''service'' of
        Inl e \<Rightarrow> (Inl e, w)
      | Inr s \<Rightarrow>
          (case py_in ''http'' s of
             Inl e \<Rightarrow> (Inl e, w)
           | Inr b \<Rightarrow>
               if b then
                 (case row_of index item of
                    Inl e \<Rightarrow> (Inl e, w)
                  | Inr r \<Rightarrow> add_rows (Suc index) items (table @ [r]) w)
               else add_rows (Suc index) items table (print (Warning index) w)))"

definition display_results ::
  "QuakeQuery \<Rightarrow> json \<Rightarrow> arg \<Rightarrow> arg \<Rightarrow> string \<Rightarrow> world \<Rightarrow> (error + unit) \<times> world" where
  "display_results self api_response start_page result_count query_term w =
     (let w1 = print BlankLines w
      in case summary api_response of
           Inl e \<Rightarrow> (Inl e, w1)
         | Inr line \<Rightarrow>
             (let w2 = print (QueryLine query_term) (print line w1)
              in case subscript api_response ''data'' of
                   Inl e \<Rightarrow> (Inl e, w2)
                 | Inr d \<Rightarrow>
                     (case py_iter d of
                        Inl e \<Rightarrow> (Inl e, w2)
                      | Inr items \<Rightarrow>
                          (case add_rows 1 items [] w2 of
                             (Inl e, w3) \<Rightarrow> (Inl e, w3)
                           | (Inr table, w3) \<Rightarrow> (Inr (), print (Table table) w3)))))"

text \<open>The loop of \<^verbatim>\<open>display_results\<close> in \<^verbatim>\<open>quake_query.py\<close>, which has no test for http.\<close>

fun qq_add_rows :: "nat \<Rightarrow> json list \<Rightarrow> row list \<Rightarrow> world \<Rightarrow> (error + row list) \<times> world" where
  "qq_add_rows index [] table w = (Inr table, w)"
| "qq_add_rows index (item # items) table w =
     (case row_of index item of
        Inl e \<Rightarrow> (Inl e, w)
      | Inr r \<Rightarrow> qq_add_rows (Suc index) items (table @ [r]) w)"

definition qq_display_results ::
  "QuakeQuery \<Rightarrow> json \<Rightarrow> arg \<Rightarrow> arg \<Rightarrow> string \<Rightarrow> world \<Rightarrow> (error + unit) \<times> world" where
  "qq_display_results self api_response start_page result_count query_term w =
     (let w1 = print BlankLines w
      in case summary api_response of
           Inl e \<Rightarrow> (Inl e, w1)
         | Inr line \<Rightarrow>
             (let w2 = print (QueryLine query_term) (print line w1)
              in case subscript api_response ''data'' of
                   Inl e \<Rightarrow> (Inl e, w2)
                 | Inr d \<Rightarrow>
                     (case py_iter d of
                        Inl e \<Rightarrow> (Inl e, w2)
                      | Inr items \<Rightarrow>
                          (case qq_add_rows 1 items [] w2 of
                             (Inl e, w3) \<Rightarrow> (Inl e, w3)
                           | (Inr table, w3) \<Rightarrow> (Inr (), print (Table table) w3)))))"

subsection \<open>export\_to\_excel\<close>

text \<open>
  The list comprehension: \<open>index\<close> counts from 0 and the row holds \<open>index + 1\<close>; the first
  item that lacks a field ends the whole comprehension with its exception.
\<close>

fun export_rows :: "nat \<Rightarrow> json list \<Rightarrow> error + row list" where
  "export_rows index [] = Inr []"
| "export_rows index (item # items) =
     (case row_of (index + 1) item of
        Inl e \<Rightarrow> Inl e
      | Inr r \<Rightarrow>
          (case export_rows (Suc index) items of
             Inl e \<Rightarrow> Inl e
           | Inr rs \<Rightarrow> Inr (r # rs)))"

definition query_filename :: "string \<Rightarrow> string" where
  "query_filename query_term =
     replace (CHR 0x22) '''' (replace (CHR '':'') '''' (replace (CHR '' '') ''_'' query_term))"

definition file_name :: "string \<Rightarrow> string" where
  "file_name query_term = ''quake_results_'' @ query_filename query_term @ ''.xlsx''"

definition export_to_excel ::
  "QuakeQuery \<Rightarrow> env \<Rightarrow> json \<Rightarrow> string \<Rightarrow> world \<Rightarrow> (error + unit) \<times> world" where
  "export_to_excel self e api_response query_term w =
     (case subscript api_response ''data'' of
        Inl err \<Rightarrow> (Inl err, w)
      | Inr d \<Rightarrow>
          (case py_iter d of
             Inl err \<Rightarrow> (Inl err, w)
           | Inr items \<Rightarrow>
               (case export_rows 0 items of
                  Inl err \<Rightarrow> (Inl err, w)
                | Inr data \<Rightarrow>
                    (let file_path = path_join (getcwd e) (file_name query_term)
                     in case to_excel e file_path data of
                          Some msg \<Rightarrow> (Inl (WriteError msg), w)
                        | None \<Rightarrow>
                            (Inr (),
                             print (Exported (file_name query_term))
                               (w\<lparr>files := (files w)(file_path \<mapsto> data)\<rparr>))))))"

subsection \<open>main\<close>

text \<open>The namespace \<^verbatim>\<open>parse_command_line_arguments\<close> returns.\<close>

record args =
  arg_search :: "string option"
  arg_size :: arg
  arg_page :: arg

text \<open>\<^verbatim>\<open>if args.search:\<close> holds for a str that is not empty.\<close>

definition truthy :: "string option \<Rightarrow> bool" where
  "truthy s = (case s of None \<Rightarrow> False | Some x \<Rightarrow> x \<noteq> [])"

text \<open>\<^verbatim>\<open>main\<close> of \<^verbatim>\<open>360QuakeForCMD.py\<close>.\<close>

definition main :: "QuakeQuery \<Rightarrow> env \<Rightarrow> args \<Rightarrow> world \<Rightarrow> (error + unit) \<times> world" where
  "main self e a w =
     (if truthy (arg_search a) then
        (let q = the (arg_search a)
         in case perform_search self e q (arg_size a) (arg_page a) w of
              (Inl err, w1) \<Rightarrow> (Inl err, w1)
            | (Inr search_results, w1) \<Rightarrow>
                (case display_results self search_results (arg_page a) (arg_size a) q w1 of
                   (Inl err, w2) \<Rightarrow> (Inl err, w2)
                 | (Inr u, w2) \<Rightarrow>
                     (case export_to_excel self e search_results q w2 of
                        (Inl err, w3) \<Rightarrow> (Inl err, w3)
                      | (Inr u', w3) \<Rightarrow>
                          (Inr (),
                           print (Exported (''quake_results_''
                              @ replace (CHR 0x22) ''''
                                  (replace (CHR '':'') '''' (replace (CHR '' '') ''_'' q))
                              @ ''.xlsx'')) w3))))
      else (Inr (), print Usage w))"

text \<open>\<^verbatim>\<open>main\<close> of \<^verbatim>\<open>quake_query.py\<close>.\<close>

definition qq_main :: "QuakeQuery \<Rightarrow> env \<Rightarrow> args \<Rightarrow> world \<Rightarrow> (error + unit) \<times> world" where
  "qq_main self e a w =
     (if truthy (arg_search a) then
        (let q = the (arg_search a)
         in case perform_search self e q (arg_size a) (arg_page a) w of
              (Inl err, w1) \<Rightarrow> (Inl err, w1)
            | (Inr search_results, w1) \<Rightarrow>
                qq_display_results self search_results (arg_page a) (arg_size a) q w1)
      else (Inr (), print Usage w))"

section \<open>Shapes of a response\<close>

text \<open>
  The test the guarded loop makes on an item, \<^verbatim>\<open>"http" in item["service"]\<close>, as a
  predicate: the item has a service and the test yields \<^verbatim>\<open>True\<close>.
\<close>

definition has_http :: "json \<Rightarrow> bool" where
  "has_http item =
     (case subscript item ''service'' of
        Inl e \<Rightarrow> False
      | Inr s \<Rightarrow> py_in ''http'' s = Inr True)"

text \<open>The items both loops walk through, none when \<^verbatim>\<open>data\<close> is missing or not iterable.\<close>

definition items_of :: "json \<Rightarrow> json list" where
  "items_of api_response =
     (case subscript api_response ''data'' of
        Inl e \<Rightarrow> []
      | Inr d \<Rightarrow> (case py_iter d of Inl e \<Rightarrow> [] | Inr items \<Rightarrow> items))"

definition present :: "error + 'a \<Rightarrow> bool" where
  "present r = (case r of Inl e \<Rightarrow> False | Inr v \<Rightarrow> True)"

text \<open>
  A result item as the remote service documents it: an object with \<^verbatim>\<open>ip\<close>, \<^verbatim>\<open>port\<close> and an
  object \<^verbatim>\<open>service\<close>; when the service has \<^verbatim>\<open>http\<close>, that has \<^verbatim>\<open>host\<close>.
\<close>

definition wf_item :: "json \<Rightarrow> bool" where
  "wf_item item =
     (present (subscript item ''ip'') \<and> present (subscript item ''port'') \<and>
      (case subscript item ''service'' of
         Inr (JObj kvs) \<Rightarrow>
           (case map_of kvs ''http'' of
              None \<Rightarrow> True
            | Some h \<Rightarrow> present (subscript h ''host''))
       | _ \<Rightarrow> False))"

text \<open>
  The indices the guarded loop warns about: those of the items for which the test fails,
  counted from \<open>index\<close>.
\<close>

fun skipped :: "nat \<Rightarrow> json list \<Rightarrow> nat list" where
  "skipped index [] = []"
| "skipped index (item # items) =
     (if has_http item then skipped (Suc index) items else index # skipped (Suc index) items)"

section \<open>Concrete inputs\<close>

definition w0 :: world where
  "w0 = \<lparr>console = [], files = Map.empty, posts = []\<rparr>"

text \<open>A network that refuses the connection.\<close>

definition env_refused :: env where
  "env_refused =
     \<lparr>post = (\<lambda>r. PostRaises ''connection refused''),
      json_loads = (\<lambda>s. Inl ''no JSON''),
      getcwd = ''/tmp'',
      to_excel = (\<lambda>p rs. None)\<rparr>"

text \<open>A response of the search endpoint with this status, reason and body.\<close>

definition answer :: "nat \<Rightarrow> string \<Rightarrow> string \<Rightarrow> response" where
  "answer code why body =
     \<lparr>status_code = code, reason = why,
      resp_url = ''https://quake.360.cn/api/v3/search/quake_service'',
      body_text = body\<rparr>"





text \<open>
  \<^verbatim>\<open>requests\<close> checks every header value before it sends anything: a value that starts
  with a blank is refused with an \<^verbatim>\<open>InvalidHeader\<close> (a \<^verbatim>\<open>RequestException\<close>) whose text
  quotes the value. Here every other request finds the connection refused.
\<close>

definition env_invalid_header :: env where
  "env_invalid_header =
     \<lparr>post = (\<lambda>r. case map_of (headers r) ''X-QuakeToken'' of
                None \<Rightarrow> PostRaises ''connection refused''
              | Some v \<Rightarrow>
                  if v \<noteq> [] \<and> hd v = CHR '' '' then
                    PostRaises
                      (''Invalid leading whitespace, reserved character(s), or return ''
                       @ ''character(s) in header value: '' @ [CHR 0x27] @ v @ [CHR 0x27])
                  else PostRaises ''connection refused''),
      json_loads = (\<lambda>s. Inl ''no JSON''),
      getcwd = ''/tmp'',
      to_excel = (\<lambda>p rs. None)\<rparr>"

text \<open>A working directory in which the file can be written.\<close>

definition env_ok :: env where
  "env_ok =
     \<lparr>post = (\<lambda>r. PostReturns (answer 200 ''OK'' ''{}'')),
      json_loads = (\<lambda>s. Inr (JObj [])),
      getcwd = ''/tmp'',
      to_excel = (\<lambda>p rs. None)\<rparr>"

text \<open>A working directory in which no file can be created.\<close>

definition env_readonly :: env where
  "env_readonly =
     \<lparr>post = (\<lambda>r. PostReturns (answer 200 ''OK'' ''{}'')),
      json_loads = (\<lambda>s. Inr (JObj [])),
      getcwd = ''/tmp'',
      to_excel = (\<lambda>p rs. Some ''Permission denied'')\<rparr>"

text \<open>
  The response of the specification's scenario: two items, the first with
  \<^verbatim>\<open>service.http.host = "a.com"\<close>, the second without \<^verbatim>\<open>service.http\<close>.
\<close>

definition item_a :: json where
  "item_a = JObj [(''ip'', JStr ''1.1.1.1''), (''port'', JInt 80),
                  (''service'', JObj [(''http'', JObj [(''host'', JStr ''a.com'')])])]"

definition item_b :: json where
  "item_b = JObj [(''ip'', JStr ''2.2.2.2''), (''port'', JInt 443),
                  (''service'', JObj [(''http'', JObj [(''host'', JStr ''b.com'')])])]"

definition item_ssh :: json where
  "item_ssh = JObj [(''ip'', JStr ''2.2.2.2''), (''port'', JInt 22), (''service'', JObj [])]"

definition meta :: "int \<Rightarrow> json" where
  "meta n =
     JObj [(''pagination'',
            JObj [(''page_index'', JInt 1), (''page_size'', JInt 2), (''total'', JInt n)])]"

definition scenario :: json where
  "scenario = JObj [(''meta'', meta 2), (''data'', JArr [item_a, item_ssh])]"

text \<open>A response in which both items have \<^verbatim>\<open>service.http\<close>.\<close>

definition both_http :: json where
  "both_http = JObj [(''meta'', meta 2), (''data'', JArr [item_a, item_b])]"

text \<open>A response whose \<^verbatim>\<open>data\<close> array is empty, and one that has no \<^verbatim>\<open>data\<close>.\<close>

definition empty_data :: json where
  "empty_data = JObj [(''meta'', meta 0), (''data'', JArr [])]"

definition no_data :: json where
  "no_data = JObj [(''meta'', meta 0)]"

section \<open>The export file name\<close>

lemma replace_remove: "replace c [] s = filter (\<lambda>x. x \<noteq> c) s"
  by (induction s) (simp_all add: replace_def)

lemma replace_subst: "replace c [d] s = map (\<lambda>x. if x = c then d else x) s"
  by (induction s) (simp_all add: replace_def)

lemma query_filename_eq:
  "query_filename q =
     filter (\<lambda>c. c \<noteq> CHR '':'' \<and> c \<noteq> CHR 0x22)
       (map (\<lambda>c. if c = CHR '' '' then CHR ''_'' else c) q)"
  by (simp add: query_filename_def replace_remove replace_subst)

text \<open>
  C5. For every query term the file name \<^verbatim>\<open>export_to_excel\<close> derives is the prefix
  \<^verbatim>\<open>quake_results_\<close>, then the query term with each space turned into an underscore and
  each colon and each double quote (the character 0x22) removed, then \<^verbatim>\<open>.xlsx\<close>; so the
  file name holds no space, no colon and no double quote.
\<close>

theorem file_name_sanitized:
  "file_name q =
     ''quake_results_''
     @ filter (\<lambda>c. c \<noteq> CHR '':'' \<and> c \<noteq> CHR 0x22)
         (map (\<lambda>c. if c = CHR '' '' then CHR ''_'' else c) q)
     @ ''.xlsx''
   \<and> CHR '' '' \<notin> set (file_name q)
   \<and> CHR '':'' \<notin> set (file_name q)
   \<and> CHR 0x22 \<notin> set (file_name q)"
  by (auto simp add: file_name_def query_filename_eq)

text \<open>The query term of the specification, \<^verbatim>\<open>domain="xx.com" city=Beijing\<close>.\<close>

theorem file_name_sanitized_witness:
  "file_name (''domain='' @ [CHR 0x22] @ ''xx.com'' @ [CHR 0x22] @ '' city=Beijing'')
     = ''quake_results_domain=xx.com_city=Beijing.xlsx''
   \<and> CHR '' '' \<notin> set (file_name (''domain='' @ [CHR 0x22] @ ''xx.com'' @ [CHR 0x22] @ '' city=Beijing''))"
  using file_name_sanitized [of "''domain='' @ [CHR 0x22] @ ''xx.com'' @ [CHR 0x22] @ '' city=Beijing''"]
  by simp

section \<open>The request that perform\_search sends\<close>

text \<open>The concrete inputs, unfolded when a statement is evaluated.\<close>

lemmas inputs = scenario_def both_http_def empty_data_def no_data_def item_a_def item_b_def
  item_ssh_def meta_def w0_def

text \<open>\<open>digits\<close> writes a number in base ten: reading its result gives the number back.\<close>

lemma of_char_digit_char: "d < 10 \<Longrightarrow> of_char (digit_char d) = (48 + d :: nat)"
  unfolding digit_char_def by simp

lemma decimal_value_snoc:
  "decimal_value (s @ [c]) = 10 * decimal_value s + (of_char c - 48)"
  by (simp add: decimal_value_def)

lemma decimal_value_digits: "decimal_value (digits n) = n"
proof (induction n rule: digits.induct)
  case (1 n)
  show ?case
  proof (cases "n < 10")
    case True
    then show ?thesis
      by (subst digits.simps) (simp add: decimal_value_def of_char_digit_char)
  next
    case False
    with 1 have "decimal_value (digits (n div 10)) = n div 10" by simp
    with False show ?thesis
      by (subst digits.simps) (simp add: decimal_value_snoc of_char_digit_char)
  qed
qed

lemma posts_perform_search:
  "posts (snd (perform_search self e query n p w))
     = posts w @ [search_request self query n p]"
  by (simp add: perform_search_def Let_def print_def
        split: post_outcome.split option.split sum.split)

text \<open>
  C4. For every query that is not empty, every positive \<open>page_size\<close> and every
  \<open>start_page\<close> that is not negative, \<^verbatim>\<open>perform_search\<close> calls \<^verbatim>\<open>requests.post\<close> exactly once
  (whatever the network then answers), and the JSON body of that request holds \<^verbatim>\<open>query\<close>
  equal to the query argument, \<^verbatim>\<open>start\<close> equal to the start page, and \<^verbatim>\<open>size\<close> equal to
  the string form of the page size: the str whose decimal value is \<open>page_size\<close>.
\<close>

theorem perform_search_one_request:
  assumes "query \<noteq> []" and "0 < page_size" and "0 \<le> start_page"
  shows "posts (snd (perform_search self e query (AInt page_size) (AInt start_page) w))
           = posts w @
             [\<lparr>url = ''https://quake.360.cn/api/v3/search/quake_service'',
               headers = [(''X-QuakeToken'', api_key self)],
               json_body = [(''query'', JStr query),
                            (''start'', JInt start_page),
                            (''size'', JStr (str_int page_size))]\<rparr>]
         \<and> int (decimal_value (str_int page_size)) = page_size"
  using assms
  by (simp add: posts_perform_search search_request_def payload_def str_int_def
        decimal_value_digits)

theorem perform_search_one_request_witness:
  "''city=Beijing'' \<noteq> [] \<and> (0::int) < 100 \<and> (0::int) \<le> 1
   \<and> posts (snd (perform_search \<lparr>api_key = ''k''\<rparr> env_refused ''city=Beijing''
                 (AInt 100) (AInt 1) w0))
     = [\<lparr>url = ''https://quake.360.cn/api/v3/search/quake_service'',
         headers = [(''X-QuakeToken'', ''k'')],
         json_body = [(''query'', JStr ''city=Beijing''), (''start'', JInt 1),
                      (''size'', JStr ''100'')]\<rparr>]"
proof -
  have s: "str_int 100 = ''100''" by code_simp
  show ?thesis
    using perform_search_one_request
      [of "''city=Beijing''" 100 1 "\<lparr>api_key = ''k''\<rparr>" env_refused w0]
    by (simp add: s w0_def)
qed

section \<open>The errors of perform\_search\<close>




section \<open>A run whose search fails\<close>

lemma perform_search_transport:
  assumes "perform_search self e query n p w = (Inl (RequestException msg), w1)"
  shows "console w1 = console w @ [ApiError msg] \<and> files w1 = files w"
  using assms
  by (auto simp add: perform_search_def Let_def print_def
        split: post_outcome.splits option.splits sum.splits)

text \<open>
  C7. When \<^verbatim>\<open>perform_search\<close> fails with a transport error in a run of \<^verbatim>\<open>main\<close> (a search
  term was given), the run ends with that error; all it has printed is the message of
  \<^verbatim>\<open>perform_search\<close>, so no summary and no table, and the files are as they were:
  \<^verbatim>\<open>display_results\<close> and \<^verbatim>\<open>export_to_excel\<close> are not reached.
\<close>

theorem main_transport_error:
  assumes "truthy (arg_search a)"
    and "perform_search self e (the (arg_search a)) (arg_size a) (arg_page a) w
           = (Inl (RequestException msg), w1)"
  shows "main self e a w = (Inl (RequestException msg), w1)
       \<and> console w1 = console w @ [ApiError msg]
       \<and> files w1 = files w"
  using assms perform_search_transport [OF assms(2)]
  by (simp add: main_def Let_def)

theorem main_transport_error_witness:
  "truthy (Some ''city=Beijing'')
   \<and> main \<lparr>api_key = ''k''\<rparr> env_refused
       \<lparr>arg_search = Some ''city=Beijing'', arg_size = AInt 100, arg_page = AInt 1\<rparr> w0
     = (Inl (RequestException ''connection refused''),
        \<lparr>console = [ApiError ''connection refused''], files = Map.empty,
         posts = [search_request \<lparr>api_key = ''k''\<rparr> ''city=Beijing'' (AInt 100) (AInt 1)]\<rparr>)"
proof -
  have t: "truthy (arg_search
             \<lparr>arg_search = Some ''city=Beijing'', arg_size = AInt 100, arg_page = AInt 1\<rparr>)"
    by (simp add: truthy_def)
  have p: "perform_search \<lparr>api_key = ''k''\<rparr> env_refused
             (the (arg_search
                \<lparr>arg_search = Some ''city=Beijing'', arg_size = AInt 100, arg_page = AInt 1\<rparr>))
             (arg_size
                \<lparr>arg_search = Some ''city=Beijing'', arg_size = AInt 100, arg_page = AInt 1\<rparr>)
             (arg_page
                \<lparr>arg_search = Some ''city=Beijing'', arg_size = AInt 100, arg_page = AInt 1\<rparr>) w0
           = (Inl (RequestException ''connection refused''),
              \<lparr>console = [ApiError ''connection refused''], files = Map.empty,
               posts = [search_request \<lparr>api_key = ''k''\<rparr> ''city=Beijing'' (AInt 100) (AInt 1)]\<rparr>)"
    by (simp add: perform_search_def env_refused_def w0_def print_def Let_def)
  show ?thesis
    using main_transport_error [OF t p] by (simp add: truthy_def)
qed

section \<open>The two variants of display\_results\<close>

text \<open>When the test succeeds on every item, the guarded loop is the unguarded one.\<close>

lemma add_rows_qq:
  "list_all has_http items \<Longrightarrow> add_rows i items t w = qq_add_rows i items t w"
proof (induction items arbitrary: i t)
  case Nil
  show ?case by simp
next
  case (Cons item items)
  from Cons.prems have h: "has_http item" and rest: "list_all has_http items" by simp_all
  from h obtain s where s: "subscript item ''service'' = Inr s" "py_in ''http'' s = Inr True"
    by (auto simp add: has_http_def split: sum.splits)
  show ?case
    using s Cons.IH [OF rest] by (simp split: sum.split)
qed

text \<open>
  C9. For every response in which the test for http succeeds on every data item,
  \<^verbatim>\<open>display_results\<close> of \<^verbatim>\<open>quake_query.py\<close> and \<^verbatim>\<open>display_results\<close> of \<^verbatim>\<open>360QuakeForCMD.py\<close>
  do the same: the same lines printed (summary, query, table rows), the same result.
\<close>

theorem display_results_variants_agree:
  assumes "list_all has_http (items_of api_response)"
  shows "qq_display_results self api_response start_page result_count query_term w
           = display_results self api_response start_page result_count query_term w"
proof (cases "subscript api_response ''data''")
  case (Inl err)
  then show ?thesis
    by (simp add: qq_display_results_def display_results_def Let_def split: sum.split)
next
  case (Inr d)
  show ?thesis
  proof (cases "py_iter d")
    case (Inl err)
    with Inr show ?thesis
      by (simp add: qq_display_results_def display_results_def Let_def split: sum.split)
  next
    case items: (Inr items)
    with Inr assms have "list_all has_http items" by (simp add: items_of_def)
    then have "\<And>i t w. add_rows i items t w = qq_add_rows i items t w"
      by (rule add_rows_qq)
    with Inr items show ?thesis
      by (simp add: qq_display_results_def display_results_def Let_def split: sum.split)
  qed
qed

theorem display_results_variants_agree_witness:
  "list_all has_http (items_of both_http)
   \<and> qq_display_results \<lparr>api_key = ''k''\<rparr> both_http (AInt 1) (AInt 2) ''city=Beijing'' w0
     = (Inr (),
        \<lparr>console = [BlankLines, Summary (JInt 1) (JInt 2) (JInt 2), QueryLine ''city=Beijing'',
                    Table [(1, JStr ''a.com'', JStr ''1.1.1.1'', JInt 80),
                           (2, JStr ''b.com'', JStr ''2.2.2.2'', JInt 443)]],
         files = Map.empty, posts = []\<rparr>)"
proof -
  have h: "list_all has_http (items_of both_http)"
    by (simp add: items_of_def has_http_def inputs)
  have d: "display_results \<lparr>api_key = ''k''\<rparr> both_http (AInt 1) (AInt 2) ''city=Beijing'' w0
     = (Inr (),
        \<lparr>console = [BlankLines, Summary (JInt 1) (JInt 2) (JInt 2), QueryLine ''city=Beijing'',
                    Table [(1, JStr ''a.com'', JStr ''1.1.1.1'', JInt 80),
                           (2, JStr ''b.com'', JStr ''2.2.2.2'', JInt 443)]],
         files = Map.empty, posts = []\<rparr>)"
    by (simp add: display_results_def inputs summary_def pagination_def row_of_def print_def
          Let_def numeral_2_eq_2)
  show ?thesis
    using h d display_results_variants_agree [OF h, of "\<lparr>api_key = ''k''\<rparr>" "AInt 1" "AInt 2"
      "''city=Beijing''" w0]
    by simp
qed

section \<open>The rows of the table and of the sheet\<close>

text \<open>
  A row that \<open>row_of\<close> builds is the index and the three fields read from the item; an
  item of the documented shape that has http yields a row; the comprehension of
  \<^verbatim>\<open>export_to_excel\<close> and the loop of \<^verbatim>\<open>display_results\<close> then build the same rows.
\<close>

lemma row_of_InrD:
  "row_of i item = Inr r \<Longrightarrow>
     \<exists>s h host ip port. r = (i, host, ip, port)
        \<and> subscript item ''service'' = Inr s \<and> subscript s ''http'' = Inr h
        \<and> subscript h ''host'' = Inr host
        \<and> subscript item ''ip'' = Inr ip \<and> subscript item ''port'' = Inr port"
  by (auto simp add: row_of_def split: sum.splits)

lemma map_of_http:
  "''http'' \<in> fst ` set kvs \<Longrightarrow> \<exists>h. map_of kvs ''http'' = Some h"
  by (metis map_of_eq_None_iff not_Some_eq)

lemma row_of_wf:
  assumes "wf_item item" and "has_http item"
  shows "\<exists>r. row_of i item = Inr r"
proof -
  from assms(1) obtain kvs where s: "subscript item ''service'' = Inr (JObj kvs)"
    by (auto simp add: wf_item_def split: sum.splits json.splits)
  from assms(2) s have "''http'' \<in> fst ` set kvs" by (simp add: has_http_def)
  then obtain h where h: "map_of kvs ''http'' = Some h" using map_of_http by blast
  from assms(1) s h obtain host ip port where
    "subscript h ''host'' = Inr host" "subscript item ''ip'' = Inr ip"
    "subscript item ''port'' = Inr port"
    by (auto simp add: wf_item_def present_def split: sum.splits)
  with s h show ?thesis by (simp add: row_of_def)
qed

lemma export_rows_wf:
  "list_all wf_item items \<Longrightarrow> list_all has_http items \<Longrightarrow>
     \<exists>rows. export_rows i items = Inr rows \<and> length rows = length items
        \<and> (\<forall>j<length rows. row_of (i + j + 1) (items ! j) = Inr (rows ! j))"
proof (induction items arbitrary: i)
  case Nil
  show ?case by simp
next
  case (Cons item items)
  from Cons.prems obtain r where r: "row_of (i + 1) item = Inr r"
    using row_of_wf [of item "i + 1"] by auto
  from Cons.prems Cons.IH [of "Suc i"] obtain rows where
    rows: "export_rows (Suc i) items = Inr rows" "length rows = length items"
      "\<forall>j<length rows. row_of (Suc i + j + 1) (items ! j) = Inr (rows ! j)"
    by auto
  have "\<forall>j<length (r # rows). row_of (i + j + 1) ((item # items) ! j) = Inr ((r # rows) ! j)"
  proof (intro allI impI)
    fix j assume "j < length (r # rows)"
    then show "row_of (i + j + 1) ((item # items) ! j) = Inr ((r # rows) ! j)"
      using r rows(3) by (cases j) simp_all
  qed
  with r rows(1,2) show ?case by simp
qed

lemma add_rows_export_rows:
  "export_rows i items = Inr rows \<Longrightarrow> list_all has_http items \<Longrightarrow>
     add_rows (Suc i) items t w = (Inr (t @ rows), w)"
proof (induction items arbitrary: i t rows)
  case Nil
  then show ?case by simp
next
  case (Cons item items)
  from Cons.prems(1) obtain r rs where
    r: "row_of (Suc i) item = Inr r" and rs: "export_rows (Suc i) items = Inr rs"
    and rows: "rows = r # rs"
    by (auto split: sum.splits)
  from Cons.prems(2) have h: "has_http item" and rest: "list_all has_http items" by simp_all
  from h obtain s where s: "subscript item ''service'' = Inr s" "py_in ''http'' s = Inr True"
    by (auto simp add: has_http_def split: sum.splits)
  show ?case
    using r s rows Cons.IH [OF rs rest, of "t @ [r]"] by simp
qed

text \<open>
  C3. For every response with its pagination block, whose data is an array of items of
  the documented shape that all have \<^verbatim>\<open>service.http\<close>, the table \<^verbatim>\<open>display_results\<close> prints
  and the sheet \<^verbatim>\<open>export_to_excel\<close> writes (in a directory where the file can be written)
  hold the same rows, as many as \<^verbatim>\<open>data\<close> has items, and row \<open>i\<close> (counted from 1) is
  the index \<open>i\<close>, the \<^verbatim>\<open>service.http.host\<close>, the \<^verbatim>\<open>ip\<close> and the \<^verbatim>\<open>port\<close> of the \<open>i\<close>-th
  item, and nothing else.
\<close>

theorem rows_when_every_item_has_http:
  assumes "summary api_response = Inr line"
    and "subscript api_response ''data'' = Inr (JArr items)"
    and "list_all wf_item items"
    and "list_all has_http items"
    and "\<forall>rows. to_excel e (path_join (getcwd e) (file_name query_term)) rows = None"
  shows "\<exists>rows.
           display_results self api_response start_page result_count query_term w
             = (Inr (), w\<lparr>console := console w @ [BlankLines, line, QueryLine query_term, Table rows]\<rparr>)
         \<and> export_to_excel self e api_response query_term w
             = (Inr (), w\<lparr>files := (files w)(path_join (getcwd e) (file_name query_term) \<mapsto> rows),
                         console := console w @ [Exported (file_name query_term)]\<rparr>)
         \<and> length rows = length items
         \<and> (\<forall>i<length items. \<exists>s h host ip port.
                rows ! i = (i + 1, host, ip, port)
              \<and> subscript (items ! i) ''service'' = Inr s \<and> subscript s ''http'' = Inr h
              \<and> subscript h ''host'' = Inr host
              \<and> subscript (items ! i) ''ip'' = Inr ip
              \<and> subscript (items ! i) ''port'' = Inr port)"
proof -
  from export_rows_wf [OF assms(3,4), of 0] obtain rows where
    rows: "export_rows 0 items = Inr rows" "length rows = length items"
      "\<forall>j<length rows. row_of (0 + j + 1) (items ! j) = Inr (rows ! j)"
    by blast
  have d: "display_results self api_response start_page result_count query_term w
             = (Inr (), w\<lparr>console := console w @ [BlankLines, line, QueryLine query_term, Table rows]\<rparr>)"
    using assms(1,2) add_rows_export_rows [OF rows(1) assms(4), of "[]"]
    by (simp add: display_results_def Let_def print_def)
  have x: "export_to_excel self e api_response query_term w
             = (Inr (), w\<lparr>files := (files w)(path_join (getcwd e) (file_name query_term) \<mapsto> rows),
                         console := console w @ [Exported (file_name query_term)]\<rparr>)"
    using assms(2,5) rows(1) by (simp add: export_to_excel_def Let_def print_def)
  have p: "\<forall>i<length items. \<exists>s h host ip port.
                rows ! i = (i + 1, host, ip, port)
              \<and> subscript (items ! i) ''service'' = Inr s \<and> subscript s ''http'' = Inr h
              \<and> subscript h ''host'' = Inr host
              \<and> subscript (items ! i) ''ip'' = Inr ip
              \<and> subscript (items ! i) ''port'' = Inr port"
  proof (intro allI impI)
    fix i assume "i < length items"
    with rows(2,3) have "row_of (i + 1) (items ! i) = Inr (rows ! i)" by simp
    from row_of_InrD [OF this] show "\<exists>s h host ip port.
                rows ! i = (i + 1, host, ip, port)
              \<and> subscript (items ! i) ''service'' = Inr s \<and> subscript s ''http'' = Inr h
              \<and> subscript h ''host'' = Inr host
              \<and> subscript (items ! i) ''ip'' = Inr ip
              \<and> subscript (items ! i) ''port'' = Inr port" .
  qed
  from d x rows(2) p show ?thesis by blast
qed


theorem rows_when_every_item_has_http_witness:
  "summary both_http = Inr (Summary (JInt 1) (JInt 2) (JInt 2))
   \<and> subscript both_http ''data'' = Inr (JArr [item_a, item_b])
   \<and> list_all wf_item [item_a, item_b]
   \<and> list_all has_http [item_a, item_b]
   \<and> (\<exists>rows.
         display_results \<lparr>api_key = ''k''\<rparr> both_http (AInt 1) (AInt 2) ''city=Beijing'' w0
           = (Inr (),
              \<lparr>console = [BlankLines, Summary (JInt 1) (JInt 2) (JInt 2),
                          QueryLine ''city=Beijing'', Table rows],
               files = Map.empty, posts = []\<rparr>)
       \<and> export_to_excel \<lparr>api_key = ''k''\<rparr> env_ok both_http ''city=Beijing'' w0
           = (Inr (),
              \<lparr>console = [Exported ''quake_results_city=Beijing.xlsx''],
               files = [''/tmp/quake_results_city=Beijing.xlsx'' \<mapsto> rows],
               posts = []\<rparr>)
       \<and> length rows = 2
       \<and> rows ! 0 = (1, JStr ''a.com'', JStr ''1.1.1.1'', JInt 80)
       \<and> rows ! 1 = (2, JStr ''b.com'', JStr ''2.2.2.2'', JInt 443))"
proof -
  have f: "file_name ''city=Beijing'' = ''quake_results_city=Beijing.xlsx''"
    by (simp add: file_name_def query_filename_def replace_def)
  have h1: "summary both_http = Inr (Summary (JInt 1) (JInt 2) (JInt 2))"
    by (simp add: summary_def pagination_def inputs)
  have h2: "subscript both_http ''data'' = Inr (JArr [item_a, item_b])"
    by (simp add: both_http_def)
  have h3: "list_all wf_item [item_a, item_b]"
    by (simp add: wf_item_def present_def inputs)
  have h4: "list_all has_http [item_a, item_b]"
    by (simp add: has_http_def inputs)
  have h5: "\<forall>rows. to_excel env_ok (path_join (getcwd env_ok) (file_name ''city=Beijing'')) rows = None"
    by (simp add: env_ok_def)
  have a: "subscript item_a ''ip'' = Inr (JStr ''1.1.1.1'')"
    "subscript item_a ''port'' = Inr (JInt 80)"
    "subscript item_a ''service'' = Inr (JObj [(''http'', JObj [(''host'', JStr ''a.com'')])])"
    "subscript item_b ''ip'' = Inr (JStr ''2.2.2.2'')"
    "subscript item_b ''port'' = Inr (JInt 443)"
    "subscript item_b ''service'' = Inr (JObj [(''http'', JObj [(''host'', JStr ''b.com'')])])"
    by (simp_all add: inputs)
  from rows_when_every_item_has_http [OF h1 h2 h3 h4 h5, of "\<lparr>api_key = ''k''\<rparr>" "AInt 1" "AInt 2" w0]
  obtain rows where
    d: "display_results \<lparr>api_key = ''k''\<rparr> both_http (AInt 1) (AInt 2) ''city=Beijing'' w0
          = (Inr (), w0\<lparr>console := console w0 @ [BlankLines, Summary (JInt 1) (JInt 2) (JInt 2),
                           QueryLine ''city=Beijing'', Table rows]\<rparr>)"
    and x: "export_to_excel \<lparr>api_key = ''k''\<rparr> env_ok both_http ''city=Beijing'' w0
          = (Inr (), w0\<lparr>files := (files w0)(path_join (getcwd env_ok) (file_name ''city=Beijing'') \<mapsto> rows),
                       console := console w0 @ [Exported (file_name ''city=Beijing'')]\<rparr>)"
    and l: "length rows = length [item_a, item_b]"
    and p: "\<forall>i<length [item_a, item_b]. \<exists>s h host ip port.
                rows ! i = (i + 1, host, ip, port)
              \<and> subscript ([item_a, item_b] ! i) ''service'' = Inr s \<and> subscript s ''http'' = Inr h
              \<and> subscript h ''host'' = Inr host
              \<and> subscript ([item_a, item_b] ! i) ''ip'' = Inr ip
              \<and> subscript ([item_a, item_b] ! i) ''port'' = Inr port"
    by blast
  from p [rule_format, of 0] a have r0: "rows ! 0 = (1, JStr ''a.com'', JStr ''1.1.1.1'', JInt 80)"
    by auto
  from p [rule_format, of 1] a have r1: "rows ! 1 = (2, JStr ''b.com'', JStr ''2.2.2.2'', JInt 443)"
    by auto
  from d x l r0 r1 have
    "display_results \<lparr>api_key = ''k''\<rparr> both_http (AInt 1) (AInt 2) ''city=Beijing'' w0
           = (Inr (),
              \<lparr>console = [BlankLines, Summary (JInt 1) (JInt 2) (JInt 2),
                          QueryLine ''city=Beijing'', Table rows],
               files = Map.empty, posts = []\<rparr>)
       \<and> export_to_excel \<lparr>api_key = ''k''\<rparr> env_ok both_http ''city=Beijing'' w0
           = (Inr (),
              \<lparr>console = [Exported ''quake_results_city=Beijing.xlsx''],
               files = [''/tmp/quake_results_city=Beijing.xlsx'' \<mapsto> rows],
               posts = []\<rparr>)
       \<and> length rows = 2
       \<and> rows ! 0 = (1, JStr ''a.com'', JStr ''1.1.1.1'', JInt 80)
       \<and> rows ! 1 = (2, JStr ''b.com'', JStr ''2.2.2.2'', JInt 443)"
    by (simp add: f w0_def env_ok_def path_join_def)
  with h1 h2 h3 h4 show ?thesis by blast
qed

section \<open>Items without http\<close>

text \<open>
  For items of the documented shape, the unguarded comprehension of \<^verbatim>\<open>export_to_excel\<close>
  ends with \<^verbatim>\<open>KeyError('http')\<close> as soon as one item has no http, while the guarded loop
  of \<^verbatim>\<open>display_results\<close> goes on: it adds one row for each item with http and prints one
  warning, with the item's index, for each item without.
\<close>

lemma row_of_without_http:
  assumes "wf_item item" and "\<not> has_http item"
  shows "row_of i item = Inl (KeyError ''http'')"
proof -
  from assms(1) obtain kvs where s: "subscript item ''service'' = Inr (JObj kvs)"
    by (auto simp add: wf_item_def split: sum.splits json.splits)
  from assms(2) s have "''http'' \<notin> fst ` set kvs" by (simp add: has_http_def)
  then have "map_of kvs ''http'' = None" by (simp add: map_of_eq_None_iff)
  with s show ?thesis by (simp add: row_of_def)
qed

lemma export_rows_without_http:
  "list_all wf_item items \<Longrightarrow> \<not> list_all has_http items \<Longrightarrow>
     export_rows i items = Inl (KeyError ''http'')"
proof (induction items arbitrary: i)
  case Nil
  then show ?case by simp
next
  case (Cons item items)
  show ?case
  proof (cases "has_http item")
    case True
    with Cons.prems obtain r where "row_of (i + 1) item = Inr r"
      using row_of_wf [of item "i + 1"] by auto
    moreover from True Cons.prems Cons.IH [of "Suc i"]
    have "export_rows (Suc i) items = Inl (KeyError ''http'')" by simp
    ultimately show ?thesis by simp
  next
    case False
    with Cons.prems have "row_of (i + 1) item = Inl (KeyError ''http'')"
      using row_of_without_http [of item "i + 1"] by simp
    then show ?thesis by simp
  qed
qed

lemma add_rows_skips:
  "list_all wf_item items \<Longrightarrow>
     \<exists>rows. add_rows i items t w
             = (Inr (t @ rows), w\<lparr>console := console w @ map Warning (skipped i items)\<rparr>)
         \<and> length rows = length (filter has_http items)"
proof (induction items arbitrary: i t w)
  case Nil
  show ?case by simp
next
  case (Cons item items)
  from Cons.prems have wf: "wf_item item" and rest: "list_all wf_item items" by simp_all
  from wf obtain kvs where s: "subscript item ''service'' = Inr (JObj kvs)"
    by (auto simp add: wf_item_def split: sum.splits json.splits)
  show ?case
  proof (cases "has_http item")
    case True
    with wf obtain r where r: "row_of i item = Inr r" using row_of_wf by blast
    from True s have b: "py_in ''http'' (JObj kvs) = Inr True" by (simp add: has_http_def)
    from Cons.IH [OF rest, of "Suc i" "t @ [r]" w] obtain rows where
      "add_rows (Suc i) items (t @ [r]) w
         = (Inr ((t @ [r]) @ rows), w\<lparr>console := console w @ map Warning (skipped (Suc i) items)\<rparr>)"
      "length rows = length (filter has_http items)"
      by blast
    with True s b r have
      "add_rows i (item # items) t w
         = (Inr (t @ (r # rows)), w\<lparr>console := console w @ map Warning (skipped i (item # items))\<rparr>)
       \<and> length (r # rows) = length (filter has_http (item # items))"
      by simp
    then show ?thesis by blast
  next
    case False
    with s have b: "py_in ''http'' (JObj kvs) = Inr False" by (simp add: has_http_def)
    from Cons.IH [OF rest, of "Suc i" t "print (Warning i) w"] obtain rows where
      "add_rows (Suc i) items t (print (Warning i) w)
         = (Inr (t @ rows), (print (Warning i) w)\<lparr>console := console (print (Warning i) w)
               @ map Warning (skipped (Suc i) items)\<rparr>)"
      "length rows = length (filter has_http items)"
      by blast
    with False s b have
      "add_rows i (item # items) t w
         = (Inr (t @ rows), w\<lparr>console := console w @ map Warning (skipped i (item # items))\<rparr>)
       \<and> length rows = length (filter has_http (item # items))"
      by (simp add: print_def)
    then show ?thesis by blast
  qed
qed

lemma length_skipped: "length (skipped i items) = length (filter (\<lambda>x. \<not> has_http x) items)"
  by (induction items arbitrary: i) simp_all

text \<open>
  C1. On the response of the specification's scenario (the first item has
  \<^verbatim>\<open>service.http\<close>, the second has not) \<^verbatim>\<open>export_to_excel\<close> writes no file and prints no
  warning: it ends with \<^verbatim>\<open>KeyError('http')\<close>. \<^verbatim>\<open>display_results\<close> of the same file skips
  the item with one warning and prints the row of the other item;
  \<^verbatim>\<open>display_results\<close> of \<^verbatim>\<open>quake_query.py\<close> ends with the same \<^verbatim>\<open>KeyError\<close> before it
  prints a table.
\<close>

theorem export_fails_without_http:
  "export_to_excel \<lparr>api_key = ''k''\<rparr> env_ok scenario ''city=Beijing'' w0
     = (Inl (KeyError ''http''), w0)
   \<and> display_results \<lparr>api_key = ''k''\<rparr> scenario (AInt 1) (AInt 2) ''city=Beijing'' w0
     = (Inr (),
        \<lparr>console = [BlankLines, Summary (JInt 1) (JInt 2) (JInt 2), QueryLine ''city=Beijing'',
                    Warning 2, Table [(1, JStr ''a.com'', JStr ''1.1.1.1'', JInt 80)]],
         files = Map.empty, posts = []\<rparr>)
   \<and> qq_display_results \<lparr>api_key = ''k''\<rparr> scenario (AInt 1) (AInt 2) ''city=Beijing'' w0
     = (Inl (KeyError ''http''),
        \<lparr>console = [BlankLines, Summary (JInt 1) (JInt 2) (JInt 2), QueryLine ''city=Beijing''],
         files = Map.empty, posts = []\<rparr>)"
  by (simp add: export_to_excel_def display_results_def qq_display_results_def inputs summary_def
        pagination_def row_of_def print_def Let_def)

section \<open>The outcomes of export\_to\_excel\<close>

text \<open>
  Against C2 as it is stated: with an empty \<^verbatim>\<open>data\<close> array and a directory where the
  file can be written, \<^verbatim>\<open>export_to_excel\<close> does not fail; it writes a sheet without rows
  and prints its message.
\<close>

theorem export_empty_data_succeeds:
  "export_to_excel \<lparr>api_key = ''k''\<rparr> env_ok empty_data ''city=Beijing'' w0
     = (Inr (),
        \<lparr>console = [Exported ''quake_results_city=Beijing.xlsx''],
         files = [''/tmp/quake_results_city=Beijing.xlsx'' \<mapsto> []],
         posts = []\<rparr>)"
  by (simp add: export_to_excel_def inputs env_ok_def print_def Let_def
        path_join_def file_name_def query_filename_def replace_def)

text \<open>
  C2, amended. When the \<^verbatim>\<open>data\<close> array is empty and the file can be written,
  \<^verbatim>\<open>export_to_excel\<close> succeeds: it writes a sheet that has the header and no rows, and
  prints its message. When the writer cannot create the file, \<^verbatim>\<open>export_to_excel\<close> fails
  with the writer's error, no file written and nothing printed. When the response is an
  object without \<^verbatim>\<open>data\<close>, it fails with \<^verbatim>\<open>KeyError('data')\<close>, no file written and
  nothing printed. The outcome is a function of the response, the query term and the
  file system.
\<close>

theorem export_outcomes:
  "(subscript api_response ''data'' = Inr (JArr [])
      \<and> to_excel e (path_join (getcwd e) (file_name query_term)) [] = None \<longrightarrow>
      export_to_excel self e api_response query_term w
        = (Inr (), w\<lparr>files := (files w)(path_join (getcwd e) (file_name query_term) \<mapsto> []),
                    console := console w @ [Exported (file_name query_term)]\<rparr>))
   \<and> (subscript api_response ''data'' = Inr d \<and> py_iter d = Inr items
      \<and> export_rows 0 items = Inr rows
      \<and> to_excel e (path_join (getcwd e) (file_name query_term)) rows = Some msg \<longrightarrow>
      export_to_excel self e api_response query_term w = (Inl (WriteError msg), w))
   \<and> (api_response = JObj kvs \<and> map_of kvs ''data'' = None \<longrightarrow>
      export_to_excel self e api_response query_term w = (Inl (KeyError ''data''), w))"
  by (simp add: export_to_excel_def Let_def print_def)

theorem export_outcomes_witness:
  "export_to_excel \<lparr>api_key = ''k''\<rparr> env_ok empty_data ''city=Beijing'' w0
     = (Inr (),
        \<lparr>console = [Exported ''quake_results_city=Beijing.xlsx''],
         files = [''/tmp/quake_results_city=Beijing.xlsx'' \<mapsto> []],
         posts = []\<rparr>)
   \<and> export_to_excel \<lparr>api_key = ''k''\<rparr> env_readonly both_http ''city=Beijing'' w0
     = (Inl (WriteError ''Permission denied''), w0)
   \<and> export_to_excel \<lparr>api_key = ''k''\<rparr> env_ok no_data ''city=Beijing'' w0
     = (Inl (KeyError ''data''), w0)"
proof -
  have f: "file_name ''city=Beijing'' = ''quake_results_city=Beijing.xlsx''"
    by (simp add: file_name_def query_filename_def replace_def)
  have r: "export_rows 0 [item_a, item_b]
           = Inr [(1, JStr ''a.com'', JStr ''1.1.1.1'', JInt 80),
                  (2, JStr ''b.com'', JStr ''2.2.2.2'', JInt 443)]"
    by (simp add: row_of_def inputs)
  have a: "subscript empty_data ''data'' = Inr (JArr [])
      \<and> to_excel env_ok (path_join (getcwd env_ok) (file_name ''city=Beijing'')) [] = None"
    by (simp add: inputs env_ok_def)
  have b: "subscript both_http ''data'' = Inr (JArr [item_a, item_b])
      \<and> py_iter (JArr [item_a, item_b]) = Inr [item_a, item_b]
      \<and> export_rows 0 [item_a, item_b] = Inr [(1, JStr ''a.com'', JStr ''1.1.1.1'', JInt 80),
                  (2, JStr ''b.com'', JStr ''2.2.2.2'', JInt 443)]
      \<and> to_excel env_readonly (path_join (getcwd env_readonly) (file_name ''city=Beijing''))
           [(1, JStr ''a.com'', JStr ''1.1.1.1'', JInt 80),
                  (2, JStr ''b.com'', JStr ''2.2.2.2'', JInt 443)] = Some ''Permission denied''"
    using r by (simp add: both_http_def env_readonly_def)
  have c: "no_data = JObj [(''meta'', meta 0)] \<and> map_of [(''meta'', meta 0)] ''data'' = None"
    by (simp add: no_data_def)
  show ?thesis
    using a b c
      export_outcomes [where api_response = empty_data and e = env_ok
         and query_term = "''city=Beijing''" and self = "\<lparr>api_key = ''k''\<rparr>" and w = w0]
      export_outcomes [where api_response = both_http and e = env_readonly
         and query_term = "''city=Beijing''" and self = "\<lparr>api_key = ''k''\<rparr>" and w = w0
         and d = "JArr [item_a, item_b]" and items = "[item_a, item_b]"
         and rows = "[(1, JStr ''a.com'', JStr ''1.1.1.1'', JInt 80),
                  (2, JStr ''b.com'', JStr ''2.2.2.2'', JInt 443)]"
         and msg = "''Permission denied''"]
      export_outcomes [where api_response = no_data and e = env_ok
         and query_term = "''city=Beijing''" and self = "\<lparr>api_key = ''k''\<rparr>" and w = w0
         and kvs = "[(''meta'', meta 0)]"]
    by (simp add: f w0_def env_ok_def path_join_def)
qed

text \<open>
  C8. When a call of \<^verbatim>\<open>export_to_excel\<close> has succeeded, a second call with the same
  response and the same query term succeeds too, writes to the same path (the file name
  is derived from the query term alone) the same rows, and so leaves every file as the
  first call left it.
\<close>

theorem export_twice:
  assumes "export_to_excel self e api_response query_term w = (Inr u, w1)"
  shows "\<exists>rows w2.
           export_to_excel self e api_response query_term w1 = (Inr (), w2)
         \<and> files w1 (path_join (getcwd e) (file_name query_term)) = Some rows
         \<and> files w2 (path_join (getcwd e) (file_name query_term)) = Some rows
         \<and> files w2 = files w1"
  using assms
  by (auto simp add: export_to_excel_def Let_def print_def
        split: sum.splits option.splits)

theorem export_twice_witness:
  "export_to_excel \<lparr>api_key = ''k''\<rparr> env_ok both_http ''city=Beijing'' w0
     = (Inr (),
        \<lparr>console = [Exported ''quake_results_city=Beijing.xlsx''],
         files = [''/tmp/quake_results_city=Beijing.xlsx'' \<mapsto>
                   [(1, JStr ''a.com'', JStr ''1.1.1.1'', JInt 80),
                    (2, JStr ''b.com'', JStr ''2.2.2.2'', JInt 443)]],
         posts = []\<rparr>)
   \<and> (\<exists>w2. export_to_excel \<lparr>api_key = ''k''\<rparr> env_ok both_http ''city=Beijing''
              \<lparr>console = [Exported ''quake_results_city=Beijing.xlsx''],
               files = [''/tmp/quake_results_city=Beijing.xlsx'' \<mapsto>
                         [(1, JStr ''a.com'', JStr ''1.1.1.1'', JInt 80),
                          (2, JStr ''b.com'', JStr ''2.2.2.2'', JInt 443)]],
               posts = []\<rparr>
            = (Inr (), w2)
          \<and> files w2 ''/tmp/quake_results_city=Beijing.xlsx''
              = Some [(1, JStr ''a.com'', JStr ''1.1.1.1'', JInt 80),
                      (2, JStr ''b.com'', JStr ''2.2.2.2'', JInt 443)])"
proof -
  have f: "file_name ''city=Beijing'' = ''quake_results_city=Beijing.xlsx''"
    by (simp add: file_name_def query_filename_def replace_def)
  have x: "export_to_excel \<lparr>api_key = ''k''\<rparr> env_ok both_http ''city=Beijing'' w0
     = (Inr (),
        \<lparr>console = [Exported ''quake_results_city=Beijing.xlsx''],
         files = [''/tmp/quake_results_city=Beijing.xlsx'' \<mapsto>
                   [(1, JStr ''a.com'', JStr ''1.1.1.1'', JInt 80),
                    (2, JStr ''b.com'', JStr ''2.2.2.2'', JInt 443)]],
         posts = []\<rparr>)"
    by (simp add: export_to_excel_def inputs env_ok_def print_def Let_def
          path_join_def f row_of_def numeral_2_eq_2)
  show ?thesis
    using x export_twice [OF x] by (auto simp add: f env_ok_def path_join_def)
qed

section \<open>The credential\<close>

text \<open>
  Against C10 as it is stated: a key that starts with a blank is refused by \<^verbatim>\<open>requests\<close>
  as a header value, the text of the exception quotes it, and \<^verbatim>\<open>perform_search\<close> prints
  that text. With the same key without the blank, and everything else the same, the
  console shows another line.
\<close>

theorem api_key_echoed:
  "console (snd (perform_search \<lparr>api_key = '' secret''\<rparr> env_invalid_header ''city=Beijing''
                  (AInt 2) (AInt 1) w0))
     = [ApiError (''Invalid leading whitespace, reserved character(s), or return ''
                  @ ''character(s) in header value: '' @ [CHR 0x27] @ '' secret'' @ [CHR 0x27])]
   \<and> console (snd (perform_search \<lparr>api_key = ''secret''\<rparr> env_invalid_header ''city=Beijing''
                  (AInt 2) (AInt 1) w0))
     = [ApiError ''connection refused'']
   \<and> console (snd (perform_search \<lparr>api_key = '' secret''\<rparr> env_invalid_header ''city=Beijing''
                  (AInt 2) (AInt 1) w0))
     \<noteq> console (snd (perform_search \<lparr>api_key = ''secret''\<rparr> env_invalid_header ''city=Beijing''
                  (AInt 2) (AInt 1) w0))"
  by (simp add: perform_search_def search_request_def env_invalid_header_def w0_def
        print_def Let_def)

text \<open>
  C10, amended. The output of \<^verbatim>\<open>display_results\<close> (of either file) and of
  \<^verbatim>\<open>export_to_excel\<close> is the same for any two keys. \<^verbatim>\<open>perform_search\<close> prints nothing but
  the text of the \<^verbatim>\<open>RequestException\<close> that \<^verbatim>\<open>requests\<close> raised, one line when there is
  one; so two runs that differ in the key alone print the same exactly when \<^verbatim>\<open>requests\<close>
  raises with the same text (or does not raise) for both keys.
\<close>

theorem api_key_only_in_exception_text:
  "display_results s1 api_response start_page result_count query_term w
     = display_results s2 api_response start_page result_count query_term w
   \<and> qq_display_results s1 api_response start_page result_count query_term w
     = qq_display_results s2 api_response start_page result_count query_term w
   \<and> export_to_excel s1 e api_response query_term w
     = export_to_excel s2 e api_response query_term w
   \<and> console (snd (perform_search s e query n p w))
     = console w @
       (case error_text (post e (search_request s query n p)) of
          None \<Rightarrow> []
        | Some msg \<Rightarrow> [ApiError msg])
   \<and> ((console (snd (perform_search s1 e query n p w))
         = console (snd (perform_search s2 e query n p w)))
      = (error_text (post e (search_request s1 query n p))
         = error_text (post e (search_request s2 query n p))))"
proof -
  have c: "\<And>s. console (snd (perform_search s e query n p w))
     = console w @
       (case error_text (post e (search_request s query n p)) of
          None \<Rightarrow> []
        | Some msg \<Rightarrow> [ApiError msg])"
    by (simp add: perform_search_def error_text_def Let_def print_def
          split: post_outcome.split option.split sum.split)
  have i: "(console (snd (perform_search s1 e query n p w))
         = console (snd (perform_search s2 e query n p w)))
      = (error_text (post e (search_request s1 query n p))
         = error_text (post e (search_request s2 query n p)))"
    by (simp add: c split: option.split)
  have d: "display_results s1 api_response start_page result_count query_term w
     = display_results s2 api_response start_page result_count query_term w"
    by (simp add: display_results_def)
  have q: "qq_display_results s1 api_response start_page result_count query_term w
     = qq_display_results s2 api_response start_page result_count query_term w"
    by (simp add: qq_display_results_def)
  have x: "export_to_excel s1 e api_response query_term w
     = export_to_excel s2 e api_response query_term w"
    by (simp add: export_to_excel_def)
  from d q x c i show ?thesis by blast
qed

theorem api_key_only_in_exception_text_witness:
  "error_text (post env_refused
      (search_request \<lparr>api_key = ''key-one''\<rparr> ''city=Beijing'' (AInt 2) (AInt 1)))
     = error_text (post env_refused
      (search_request \<lparr>api_key = ''key-two''\<rparr> ''city=Beijing'' (AInt 2) (AInt 1)))
   \<and> console (snd (perform_search \<lparr>api_key = ''key-one''\<rparr> env_refused ''city=Beijing''
                  (AInt 2) (AInt 1) w0))
     = console (snd (perform_search \<lparr>api_key = ''key-two''\<rparr> env_refused ''city=Beijing''
                  (AInt 2) (AInt 1) w0))
   \<and> console (snd (perform_search \<lparr>api_key = ''key-one''\<rparr> env_refused ''city=Beijing''
                  (AInt 2) (AInt 1) w0))
     = [ApiError ''connection refused'']
   \<and> display_results \<lparr>api_key = ''key-one''\<rparr> scenario (AInt 1) (AInt 2) ''city=Beijing'' w0
     = display_results \<lparr>api_key = ''key-two''\<rparr> scenario (AInt 1) (AInt 2) ''city=Beijing'' w0"
proof -
  have h: "error_text (post env_refused
      (search_request \<lparr>api_key = ''key-one''\<rparr> ''city=Beijing'' (AInt 2) (AInt 1)))
     = error_text (post env_refused
      (search_request \<lparr>api_key = ''key-two''\<rparr> ''city=Beijing'' (AInt 2) (AInt 1)))"
    by (simp add: env_refused_def)
  note a = api_key_only_in_exception_text
        [where ?s1.0 = "\<lparr>api_key = ''key-one''\<rparr>" and ?s2.0 = "\<lparr>api_key = ''key-two''\<rparr>"
         and s = "\<lparr>api_key = ''key-one''\<rparr>"
         and e = env_refused and query = "''city=Beijing''" and n = "AInt 2" and p = "AInt 1"
         and w = w0 and api_response = scenario and start_page = "AInt 1"
         and result_count = "AInt 2" and query_term = "''city=Beijing''"]
  from a h have same: "console (snd (perform_search \<lparr>api_key = ''key-one''\<rparr> env_refused
                  ''city=Beijing'' (AInt 2) (AInt 1) w0))
     = console (snd (perform_search \<lparr>api_key = ''key-two''\<rparr> env_refused ''city=Beijing''
                  (AInt 2) (AInt 1) w0))"
    by blast
  from a have "console (snd (perform_search \<lparr>api_key = ''key-one''\<rparr> env_refused
                  ''city=Beijing'' (AInt 2) (AInt 1) w0))
     = console w0 @
       (case error_text (post env_refused
               (search_request \<lparr>api_key = ''key-one''\<rparr> ''city=Beijing'' (AInt 2) (AInt 1))) of
          None \<Rightarrow> []
        | Some msg \<Rightarrow> [ApiError msg])"
    by blast
  then have line: "console (snd (perform_search \<lparr>api_key = ''key-one''\<rparr> env_refused
                  ''city=Beijing'' (AInt 2) (AInt 1) w0))
     = [ApiError ''connection refused'']"
    by (simp add: env_refused_def error_text_def w0_def)
  from a have shown: "display_results \<lparr>api_key = ''key-one''\<rparr> scenario (AInt 1) (AInt 2)
        ''city=Beijing'' w0
     = display_results \<lparr>api_key = ''key-two''\<rparr> scenario (AInt 1) (AInt 2) ''city=Beijing'' w0"
    by blast
  from h same line shown show ?thesis by blast
qed

end
